theory Spec2Isabelle
  imports Main
begin

section \<open>Python strings\<close>

text \<open>
  A Python \<open>str\<close> is modelled as a \<open>string\<close>: a list of characters, each a code
  point below 256. The helpers below are the builtins the sources call, with the
  behaviour CPython gives them on such strings.
\<close>

definition isspace :: "char \<Rightarrow> bool" where
  \<comment> \<open>\<open>str.isspace\<close> on one character; also what \<open>\s\<close> matches in a \<open>str\<close> pattern.\<close>
  "isspace c = (c \<in> set [CHR 0x09, CHR 0x0A, CHR 0x0B, CHR 0x0C, CHR 0x0D,
                         CHR 0x1C, CHR 0x1D, CHR 0x1E, CHR 0x1F, CHR 0x20,
                         CHR 0x85, CHR 0xA0])"

definition lstrip :: "string \<Rightarrow> string" where
  "lstrip s = dropWhile isspace s"

definition rstrip :: "string \<Rightarrow> string" where
  "rstrip s = rev (dropWhile isspace (rev s))"

definition strip :: "string \<Rightarrow> string" where
  \<comment> \<open>\<open>s.strip()\<close>\<close>
  "strip s = lstrip (rstrip s)"

definition rstrip_chars :: "string \<Rightarrow> string \<Rightarrow> string" where
  \<comment> \<open>\<open>s.rstrip(chars)\<close>: removes trailing characters that occur in \<open>chars\<close>
      (a set of characters, not a suffix).\<close>
  "rstrip_chars s chars = rev (dropWhile (\<lambda>c. c \<in> set chars) (rev s))"

definition startswith :: "string \<Rightarrow> string \<Rightarrow> bool" where
  \<comment> \<open>\<open>s.startswith(p)\<close>\<close>
  "startswith s p = (take (length p) s = p)"

fun contains :: "string \<Rightarrow> string \<Rightarrow> bool" where
  \<comment> \<open>\<open>sub in s\<close>, written \<open>contains sub s\<close>\<close>
  "contains sub [] = (sub = [])"
| "contains sub (c # cs) = (startswith (c # cs) sub \<or> contains sub cs)"

function split_from :: "string \<Rightarrow> string \<Rightarrow> string \<Rightarrow> string list" where
  \<comment> \<open>the scan of \<open>str.split(sep)\<close> for a non-empty \<open>sep\<close>; \<open>cur\<close> is the
      current piece, reversed\<close>
  "split_from sep cur [] = [rev cur]"
| "split_from sep cur (c # cs) =
     (if sep \<noteq> [] \<and> startswith (c # cs) sep
      then rev cur # split_from sep [] (drop (length sep) (c # cs))
      else split_from sep (c # cur) cs)"
  by pat_completeness auto
termination
  by (relation "measure (\<lambda>(sep, cur, s). length s)") auto

datatype error =
    ParseError string
  | NotImplementedError
  | ValueError
  | KeyError
  | TypeError
  | ValidationError
  | ParseException

definition split :: "string \<Rightarrow> string \<Rightarrow> error + string list" where
  \<comment> \<open>\<open>s.split(sep)\<close>; an empty separator raises \<open>ValueError\<close>\<close>
  "split s sep = (if sep = [] then Inl ValueError else Inr (split_from sep [] s))"

definition splitlines_nl :: "string \<Rightarrow> string list" where
  \<comment> \<open>\<open>s.split('\n')\<close>\<close>
  "splitlines_nl s = split_from [CHR 0x0A] [] s"

definition split_comma :: "string \<Rightarrow> string list" where
  \<comment> \<open>\<open>s.split(',')\<close>\<close>
  "split_comma s = split_from '','' [] s"

definition lower_char :: "char \<Rightarrow> char" where
  \<comment> \<open>\<open>str.lower\<close> on one character below 256\<close>
  "lower_char c =
     (let n = (of_char c :: nat) in
      if (65 \<le> n \<and> n \<le> 90) \<or> (192 \<le> n \<and> n \<le> 222 \<and> n \<noteq> 215)
      then char_of (n + 32) else c)"

definition lower :: "string \<Rightarrow> string" where
  "lower s = map lower_char s"

definition join :: "string \<Rightarrow> string list \<Rightarrow> string" where
  \<comment> \<open>\<open>sep.join(xs)\<close>\<close>
  "join sep xs = (case xs of [] \<Rightarrow> [] | y # ys \<Rightarrow> y @ concat (map (\<lambda>z. sep @ z) ys))"

function digits :: "nat \<Rightarrow> string" where
  "digits n = (if n < 10 then [char_of (48 + n)]
               else digits (n div 10) @ [char_of (48 + n mod 10)])"
  by pat_completeness auto
termination
  by (relation "measure id") auto

definition str_int :: "int \<Rightarrow> string" where
  \<comment> \<open>\<open>str(i)\<close> for an \<open>int\<close>\<close>
  "str_int i = (if i < 0 then ''-'' @ digits (nat (- i)) else digits (nat i))"

definition hex_digit :: "nat \<Rightarrow> char" where
  "hex_digit n = (if n < 10 then char_of (48 + n) else char_of (87 + n))"

definition printable :: "char \<Rightarrow> bool" where
  \<comment> \<open>\<open>str.isprintable\<close> on one character below 256\<close>
  "printable c =
     (let n = (of_char c :: nat) in (32 \<le> n \<and> n < 127) \<or> (161 \<le> n \<and> n \<noteq> 173))"

definition repr_char :: "char \<Rightarrow> char \<Rightarrow> string" where
  "repr_char quote c =
     (if c = quote \<or> c = CHR 0x5C then [CHR 0x5C, c]
      else if c = CHR 0x09 then [CHR 0x5C, CHR ''t'']
      else if c = CHR 0x0A then [CHR 0x5C, CHR ''n'']
      else if c = CHR 0x0D then [CHR 0x5C, CHR ''r'']
      else if printable c then [c]
      else [CHR 0x5C, CHR ''x'', hex_digit (of_char c div 16), hex_digit (of_char c mod 16)])"

definition repr_str :: "string \<Rightarrow> string" where
  \<comment> \<open>\<open>repr(s)\<close> for a \<open>str\<close>: single quotes, unless the text has a single quote
      and no double quote\<close>
  "repr_str s =
     (let quote = (if CHR 0x27 \<in> set s \<and> CHR 0x22 \<notin> set s then CHR 0x22 else CHR 0x27)
      in [quote] @ concat (map (repr_char quote) s) @ [quote])"

definition repr_list :: "string list \<Rightarrow> string" where
  \<comment> \<open>\<open>str(xs)\<close> for a list whose items have the given representations\<close>
  "repr_list items = ''['' @ join '', '' items @ '']''"


section \<open>The \<open>parse\<close> format matcher\<close>

text \<open>
  \<open>parse.parse(format, input)\<close> compiles the format to a regular expression anchored
  at both ends (\<open>\A ... \Z\<close>, flags \<open>IGNORECASE | DOTALL\<close>): literal text matches
  itself without regard to case, and an untyped field \<open>{name}\<close> is the non-greedy
  group \<open>(.+?)\<close>. The result is \<open>None\<close> or the named fields.
\<close>

datatype part = Lit string | Field string

fun scan :: "(string \<Rightarrow> 'a option) \<Rightarrow> string \<Rightarrow> string \<Rightarrow> (string \<times> 'a) option" where
  \<comment> \<open>the shortest non-empty text for a field such that the rest of the format
      matches the rest of the input; \<open>acc\<close> is the text taken so far, reversed\<close>
  "scan k acc [] = None"
| "scan k acc (c # cs) =
     (case k cs of
        Some r \<Rightarrow> Some (rev (c # acc), r)
      | None \<Rightarrow> scan k (c # acc) cs)"

primrec parse :: "part list \<Rightarrow> string \<Rightarrow> (string \<times> string) list option" where
  "parse [] = (\<lambda>s. if s = [] then Some [] else None)"
| "parse (p # ps) =
     (case p of
        Lit l \<Rightarrow> (\<lambda>s. if lower (take (length l) s) = lower l
                       then parse ps (drop (length l) s) else None)
      | Field n \<Rightarrow> (\<lambda>s. map_option (\<lambda>(v, r). (n, v) # r) (scan (parse ps) [] s)))"

primrec format_text :: "part list \<Rightarrow> string" where
  \<comment> \<open>the format string a list of parts stands for\<close>
  "format_text [] = []"
| "format_text (p # ps) =
     (case p of Lit l \<Rightarrow> l | Field n \<Rightarrow> ''{'' @ n @ ''}'') @ format_text ps"

definition format_raise :: "part list \<Rightarrow> string \<Rightarrow> error" where
  \<comment> \<open>\<open>ParseError.format_raise\<close>: the exception it raises\<close>
  "format_raise fmt input =
     ParseError (''Could not parse table row.'' @ [CHR 0x0A] @ ''Expected Format: ''
                 @ format_text fmt @ [CHR 0x0A] @ ''Got String: '' @ input)"

section \<open>Rows\<close>

datatype Comment = Comment (comment: string)

definition Comment_format :: "part list" where
  \<comment> \<open>\<open>"# {comment}"\<close>\<close>
  "Comment_format = [Lit ''# '', Field ''comment'']"

definition Comment_make :: "Comment \<Rightarrow> string" where
  "Comment_make c = join '' '' [''#'', comment c]"

definition Comment_from_string :: "string \<Rightarrow> error + Comment" where
  "Comment_from_string input =
     (case parse Comment_format input of
        None \<Rightarrow> Inl (format_raise Comment_format input)
      | Some named \<Rightarrow>
          (case map_of named ''comment'' of
             None \<Rightarrow> Inl ValidationError
           | Some c \<Rightarrow> Inr (Comment c)))"

datatype Dependency = Dependency (dependency: string)

definition Dependency_format :: "part list" where
  \<comment> \<open>\<open>"-> {dependency}"\<close>\<close>
  "Dependency_format = [Lit ''-> '', Field ''dependency'']"

definition Dependency_make :: "Dependency \<Rightarrow> string" where
  "Dependency_make d = ''-> '' @ dependency d"

definition Dependency_from_string :: "string \<Rightarrow> error + Dependency" where
  "Dependency_from_string input =
     (case parse Dependency_format input of
        None \<Rightarrow> Inl (format_raise Dependency_format input)
      | Some named \<Rightarrow>
          (case map_of named ''dependency'' of
             None \<Rightarrow> Inl ValidationError
           | Some d \<Rightarrow> Inr (Dependency d)))"

section \<open>Data types\<close>

definition DATATYPES :: "string list" where
  "DATATYPES = [''tinyint'', ''smallint'', ''mediumint'', ''int'', ''enum'', ''date'',
                ''time'', ''datetime'', ''timestamp'', ''char'', ''varchar'', ''float'',
                ''double'', ''decimal'', ''blob'', ''tinyblob'', ''mediumblob'',
                ''longblob'', ''attach'', ''filepath'']"

text \<open>
  The field \<open>args: Optional[Union[int, List[int], List[str]]]\<close>. What \<open>from_string\<close>
  hands to the constructor is a \<open>str\<close> or a list of \<open>str\<close>; the model class
  validates it against the union and may coerce it (\<open>'20'\<close> to \<open>20\<close>). That
  coercion belongs to the validation library, so the functions below take it as the
  parameter \<open>coerce\<close>, \<open>None\<close> standing for a value the union rejects.
\<close>

datatype type_args = ArgInt int | ArgInts "int list" | ArgStrs "string list"

datatype raw_args = RawStr string | RawList "string list"

type_synonym coercion = "raw_args \<Rightarrow> type_args option"

record DJ_Type =
  dj_datatype :: string
  dj_args :: "type_args option"
  dj_unsigned :: bool

definition DJ_Type_init ::
  "coercion \<Rightarrow> string \<Rightarrow> raw_args option \<Rightarrow> bool \<Rightarrow> error + DJ_Type" where
  \<comment> \<open>the validating constructor \<open>cls(datatype=..., args=..., unsigned=...)\<close>\<close>
  "DJ_Type_init coerce dt raw u =
     (if dt \<notin> set DATATYPES then Inl ValidationError
      else case raw of
             None \<Rightarrow> Inr \<lparr>dj_datatype = dt, dj_args = None, dj_unsigned = u\<rparr>
           | Some r \<Rightarrow>
               (case coerce r of
                  None \<Rightarrow> Inl ValidationError
                | Some a \<Rightarrow> Inr \<lparr>dj_datatype = dt, dj_args = Some a, dj_unsigned = u\<rparr>))"

definition parameterized_format :: "part list" where
  \<comment> \<open>\<open>"{datatype}({args})"\<close>\<close>
  "parameterized_format = [Field ''datatype'', Lit ''('', Field ''args'', Lit '')'']"

definition truthy :: "type_args option \<Rightarrow> bool" where
  \<comment> \<open>\<open>if self.args:\<close>\<close>
  "truthy a = (case a of
                 None \<Rightarrow> False
               | Some (ArgInt i) \<Rightarrow> i \<noteq> 0
               | Some (ArgInts xs) \<Rightarrow> xs \<noteq> []
               | Some (ArgStrs xs) \<Rightarrow> xs \<noteq> [])"

definition str_args :: "type_args \<Rightarrow> string" where
  \<comment> \<open>\<open>f'{self.args}'\<close>\<close>
  "str_args a = (case a of
                   ArgInt i \<Rightarrow> str_int i
                 | ArgInts xs \<Rightarrow> repr_list (map str_int xs)
                 | ArgStrs xs \<Rightarrow> repr_list (map repr_str xs))"

definition DJ_Type_make :: "DJ_Type \<Rightarrow> string" where
  "DJ_Type_make t =
     (let typestr = dj_datatype t;
          typestr =
            (if truthy (dj_args t) then
               (case dj_args t of
                  None \<Rightarrow> typestr
                | Some a \<Rightarrow>
                    if dj_datatype t = ''filepath'' then typestr @ ''@'' @ str_args a
                    else (case a of
                            ArgInts xs \<Rightarrow> typestr @ ''('' @ join '','' (map str_int xs) @ '')''
                          | ArgStrs xs \<Rightarrow> typestr @ ''('' @ join '','' xs @ '')''
                          | ArgInt i \<Rightarrow> typestr @ ''('' @ str_args a @ '')''))
             else typestr);
          typestr = (if dj_unsigned t then typestr @ '' unsigned'' else typestr)
      in typestr)"

definition DJ_Type_from_string :: "coercion \<Rightarrow> string \<Rightarrow> error + DJ_Type" where
  "DJ_Type_from_string coerce input0 =
     (let unsigned = contains ''unsigned'' input0;
          input = (if unsigned then rstrip_chars input0 '' unsigned'' else input0)
      in
      if contains ''@'' input then
        (case split ''@'' input of
           Inl e \<Rightarrow> Inl e
         | Inr parts \<Rightarrow>
             (case parts of
                [dt, args] \<Rightarrow> DJ_Type_init coerce dt (Some (RawStr args)) False
              | _ \<Rightarrow> Inl ValueError))
      else
        (let input = strip input in
         case parse parameterized_format input of
           None \<Rightarrow> DJ_Type_init coerce input None unsigned
         | Some named \<Rightarrow>
             (case map_of named ''args'' of
                None \<Rightarrow> Inl KeyError
              | Some args \<Rightarrow>
                  (case map_of named ''datatype'' of
                     None \<Rightarrow> Inl KeyError
                   | Some dt \<Rightarrow>
                       DJ_Type_init coerce dt
                         (Some (if contains '','' args then RawList (split_comma args)
                                else RawStr args))
                         unsigned))))"


section \<open>Attribute rows\<close>

text \<open>
  \<open>attribute_parser\<close> is the attribute grammar of the DataJoint package, which the
  sources import and call as \<open>attribute_parser.parseString(input + '#')\<close>. It is not
  part of this program, so the functions below take it as the parameter \<open>ap\<close>: the
  pieces it returns, or \<open>None\<close> when it raises its parse exception. The piece
  \<open>default\<close> is present only when the line has one.
\<close>

record pieces =
  p_name :: string
  p_type :: string
  p_comment :: string
  p_default :: "string option"

type_synonym attribute_parser = "string \<Rightarrow> pieces option"

record Attribute =
  attr_name :: string
  attr_datatype :: DJ_Type
  attr_comment :: "string option"
  attr_default :: "string option"

definition nonempty :: "string option \<Rightarrow> bool" where
  \<comment> \<open>truth value of an optional \<open>str\<close>\<close>
  "nonempty x = (case x of None \<Rightarrow> False | Some s \<Rightarrow> s \<noteq> [])"

definition text_of :: "string option \<Rightarrow> string" where
  \<comment> \<open>\<open>f'{x}'\<close> for an optional \<open>str\<close>\<close>
  "text_of x = (case x of None \<Rightarrow> ''None'' | Some s \<Rightarrow> s)"

definition Attribute_make :: "Attribute \<Rightarrow> string" where
  "Attribute_make a =
     (if nonempty (attr_comment a) \<and> nonempty (attr_default a) then
        attr_name a @ '' = '' @ text_of (attr_default a) @ '' : ''
          @ DJ_Type_make (attr_datatype a) @ '' # '' @ text_of (attr_comment a)
      else if nonempty (attr_comment a) then
        attr_name a @ '' : '' @ DJ_Type_make (attr_datatype a) @ '' # ''
          @ text_of (attr_comment a)
      else if nonempty (attr_default a) then
        attr_name a @ '' = '' @ text_of (attr_default a) @ '' : ''
          @ DJ_Type_make (attr_datatype a)
      else attr_name a @ '' : '' @ DJ_Type_make (attr_datatype a))"

definition index_re_match :: "string \<Rightarrow> bool" where
  \<comment> \<open>\<open>re.match(r"^(unique\s+)?index[^:]*$", input, re.I)\<close> finds a match\<close>
  "index_re_match s =
     (let tail_ok = (\<lambda>r. lower (take 5 r) = ''index'' \<and> CHR '':'' \<notin> set (drop 5 r))
      in tail_ok s \<or>
         (lower (take 6 s) = ''unique'' \<and>
          (let r = drop 6 s
           in r \<noteq> [] \<and> isspace (hd r) \<and> tail_ok (dropWhile isspace r))))"

definition Attribute_from_string ::
  "attribute_parser \<Rightarrow> coercion \<Rightarrow> string \<Rightarrow> error + Attribute" where
  "Attribute_from_string ap coerce input =
     (if index_re_match input then Inl NotImplementedError
      else case ap (input @ ''#'') of
             None \<Rightarrow> Inl ParseException
           | Some pieces \<Rightarrow>
               (let cmt = strip (rstrip_chars (p_comment pieces) ''#'')
                in case DJ_Type_from_string coerce (p_type pieces) of
                     Inl e \<Rightarrow> Inl e
                   | Inr t \<Rightarrow>
                       Inr \<lparr>attr_name = p_name pieces, attr_datatype = t,
                            attr_comment = Some cmt, attr_default = p_default pieces\<rparr>))"

section \<open>Tables\<close>

datatype TableRow = AttributeRow Attribute | DependencyRow Dependency

definition TableRow_make :: "TableRow \<Rightarrow> string" where
  "TableRow_make r =
     (case r of AttributeRow a \<Rightarrow> Attribute_make a | DependencyRow d \<Rightarrow> Dependency_make d)"

definition TIERS :: "string list" where
  "TIERS = [''Manual'', ''Lookup'', ''Imported'', ''Computed'']"

record Table =
  tbl_name :: string
  tbl_tier :: string
  tbl_comment :: "Comment option"
  tbl_keys :: "TableRow list"
  tbl_attributes :: "TableRow list option"

definition Table_init ::
  "string \<Rightarrow> string \<Rightarrow> Comment option \<Rightarrow> TableRow list \<Rightarrow> TableRow list option
   \<Rightarrow> error + Table" where
  \<comment> \<open>the validating constructor \<open>cls(name=..., tier=..., ...)\<close>: \<open>tier\<close> has the
      type \<open>TIERS\<close>, a literal type\<close>
  "Table_init name tier cmt keys attributes =
     (if tier \<notin> set TIERS then Inl ValidationError
      else Inr \<lparr>tbl_name = name, tbl_tier = tier, tbl_comment = cmt, tbl_keys = keys,
                 tbl_attributes = attributes\<rparr>)"

record loop_state =
  passed_keys :: bool
  cur_comment :: "Comment option"
  cur_keys :: "TableRow list"
  cur_attrs :: "TableRow list"

definition loop_body ::
  "attribute_parser \<Rightarrow> coercion \<Rightarrow> loop_state \<Rightarrow> string \<Rightarrow> error + loop_state" where
  \<comment> \<open>one iteration of \<open>for line in lines\<close>\<close>
  "loop_body ap coerce st line0 =
     (let line = strip line0 in
      if length line = 0 then Inr st
      else if startswith line ''#'' then
        (case Comment_from_string line of
           Inl e \<Rightarrow> Inl e
         | Inr c \<Rightarrow> Inr (st\<lparr>cur_comment := Some c\<rparr>))
      else if contains ''---'' line then Inr (st\<lparr>passed_keys := True\<rparr>)
      else
        (case (if contains ''->'' line
               then map_sum id DependencyRow (Dependency_from_string line)
               else map_sum id AttributeRow (Attribute_from_string ap coerce line)) of
           Inl e \<Rightarrow> Inl e
         | Inr attr \<Rightarrow>
             if passed_keys st then Inr (st\<lparr>cur_attrs := cur_attrs st @ [attr]\<rparr>)
             else Inr (st\<lparr>cur_keys := cur_keys st @ [attr]\<rparr>)))"

fun loop ::
  "attribute_parser \<Rightarrow> coercion \<Rightarrow> loop_state \<Rightarrow> string list \<Rightarrow> error + loop_state" where
  "loop ap coerce st [] = Inr st"
| "loop ap coerce st (line # lines) =
     (case loop_body ap coerce st line of
        Inl e \<Rightarrow> Inl e
      | Inr st' \<Rightarrow> loop ap coerce st' lines)"

definition initial_state :: loop_state where
  "initial_state = \<lparr>passed_keys = False, cur_comment = None, cur_keys = [], cur_attrs = []\<rparr>"

definition from_definition ::
  "attribute_parser \<Rightarrow> coercion \<Rightarrow> string \<Rightarrow> string \<Rightarrow> string option \<Rightarrow> error + Table" where
  \<comment> \<open>\<open>Table.from_definition(name, definition, tier)\<close>; \<open>tier = None\<close> is a call
      without the argument\<close>
  "from_definition ap coerce name definition tier =
     (case loop ap coerce initial_state (splitlines_nl definition) of
        Inl e \<Rightarrow> Inl e
      | Inr st \<Rightarrow>
          (let tier = (case tier of None \<Rightarrow> ''MANUAL'' | Some t \<Rightarrow> t)
           in Table_init name tier (cur_comment st) (cur_keys st) (Some (cur_attrs st))))"

definition nl :: string where
  "nl = [CHR 0x0A]"

definition make_python :: "Table \<Rightarrow> error + string" where
  \<comment> \<open>\<open>Table._make_python\<close>\<close>
  "make_python t =
     (let out_str = ''@schema'' @ nl;
          out_str = out_str @ ''class '' @ tbl_name t @ ''(dj.'' @ tbl_tier t @ ''):'' @ nl;
          out_str = out_str @ ''    definition = '' @ [CHR 0x22, CHR 0x22, CHR 0x22] @ nl;
          out_str = (case tbl_comment t of
                       None \<Rightarrow> out_str
                     | Some c \<Rightarrow> out_str @ ''    '' @ Comment_make c @ nl);
          out_str = out_str @ concat (map (\<lambda>key. ''    '' @ TableRow_make key @ nl) (tbl_keys t));
          out_str = out_str @ ''    ---'' @ nl
      in case tbl_attributes t of
           None \<Rightarrow> Inl TypeError
         | Some attrs \<Rightarrow>
             (let out_str = out_str
                    @ concat (map (\<lambda>attr. ''    '' @ TableRow_make attr @ nl) attrs);
                  out_str = out_str @ ''    '' @ [CHR 0x22, CHR 0x22, CHR 0x22]
              in Inr out_str))"

definition make_matlab :: "Table \<Rightarrow> error + string" where
  \<comment> \<open>\<open>Table._make_matlab\<close>\<close>
  "make_matlab t =
     (let out_str = ''%{'' @ nl;
          out_str = (case tbl_comment t of
                       None \<Rightarrow> out_str
                     | Some c \<Rightarrow> out_str @ ''# '' @ Comment_make c @ nl);
          out_str = out_str @ concat (map (\<lambda>key. ''# '' @ TableRow_make key @ nl) (tbl_keys t));
          out_str = out_str @ ''---'' @ nl
      in case tbl_attributes t of
           None \<Rightarrow> Inl TypeError
         | Some attrs \<Rightarrow>
             (let out_str = out_str @ concat (map (\<lambda>attr. ''# '' @ TableRow_make attr @ nl) attrs);
                  out_str = out_str @ ''%}'' @ nl @ nl;
                  out_str = out_str @ ''classdef '' @ tbl_name t @ '' < dj.'' @ tbl_tier t
                            @ nl @ ''end''
              in Inr out_str))"

definition Table_make :: "Table \<Rightarrow> string \<Rightarrow> error + string option" where
  \<comment> \<open>\<open>Table.make(lang)\<close>; \<open>Inr None\<close> is the return value \<open>None\<close> of a call that
      reaches the end of the body\<close>
  "Table_make t lang =
     (if lang = ''python'' then map_sum id Some (make_python t)
      else if lower lang = ''matlab'' then map_sum id Some (make_matlab t)
      else Inr None)"


section \<open>Observing the loop\<close>

text \<open>
  Two readings of one line, following the order of the tests in the loop body: which
  branch the line takes, and the error (if any) of the row parser it is handed to.
\<close>

datatype line_kind = Blank | CommentLine | Divider | RowLine

definition line_kind :: "string \<Rightarrow> line_kind" where
  "line_kind line0 =
     (let line = strip line0 in
      if length line = 0 then Blank
      else if startswith line ''#'' then CommentLine
      else if contains ''---'' line then Divider
      else RowLine)"

definition row_error :: "attribute_parser \<Rightarrow> coercion \<Rightarrow> string \<Rightarrow> error option" where
  "row_error ap coerce line0 =
     (let line = strip line0 in
      case line_kind line0 of
        Blank \<Rightarrow> None
      | Divider \<Rightarrow> None
      | CommentLine \<Rightarrow>
          (case Comment_from_string line of Inl e \<Rightarrow> Some e | Inr _ \<Rightarrow> None)
      | RowLine \<Rightarrow>
          if contains ''->'' line
          then (case Dependency_from_string line of Inl e \<Rightarrow> Some e | Inr _ \<Rightarrow> None)
          else (case Attribute_from_string ap coerce line of Inl e \<Rightarrow> Some e | Inr _ \<Rightarrow> None))"


section \<open>The loop stops at the first failing line\<close>

lemma loop_append:
  "loop ap co st (xs @ ys) =
     (case loop ap co st xs of Inl e \<Rightarrow> Inl e | Inr st' \<Rightarrow> loop ap co st' ys)"
  by (induction xs arbitrary: st) (auto split: sum.splits)

lemma loop_body_fails:
  "row_error ap co l = Some e \<Longrightarrow> loop_body ap co st l = Inl e"
  by (auto simp: row_error_def loop_body_def line_kind_def Let_def
           split: if_splits sum.splits)

lemma loop_body_returns:
  "row_error ap co l = None \<Longrightarrow> \<exists>st'. loop_body ap co st l = Inr st'"
  by (auto simp: row_error_def loop_body_def line_kind_def Let_def
           split: if_splits sum.splits)

lemma loop_returns:
  "\<forall>l\<in>set ls. row_error ap co l = None \<Longrightarrow> \<exists>st'. loop ap co st ls = Inr st'"
proof (induction ls arbitrary: st)
  case Nil
  then show ?case by simp
next
  case (Cons l ls)
  then obtain st1 where "loop_body ap co st l = Inr st1"
    using loop_body_returns by (metis list.set_intros(1))
  with Cons show ?case by simp
qed

lemma loop_first_failure:
  assumes "\<forall>x\<in>set pre. row_error ap co x = None" and "row_error ap co l = Some e"
  shows "loop ap co st (pre @ l # post) = Inl e"
proof -
  obtain st1 where "loop ap co st pre = Inr st1"
    using loop_returns [OF assms(1)] by blast
  then show ?thesis
    by (simp add: loop_append loop_body_fails [OF assms(2)])
qed

section \<open>What the two row formats accept\<close>

lemma lower_char_nonletter:
  assumes "lower_char c = d"
    and "\<not> (97 \<le> (of_char d :: nat) \<and> (of_char d :: nat) \<le> 122)"
    and "\<not> (224 \<le> (of_char d :: nat) \<and> (of_char d :: nat) \<le> 254)"
  shows "c = d"
proof (rule ccontr)
  assume neq: "c \<noteq> d"
  define n where "n = (of_char c :: nat)"
  from neq assms(1) have up: "(65 \<le> n \<and> n \<le> 90) \<or> (192 \<le> n \<and> n \<le> 222 \<and> n \<noteq> 215)"
    and d: "d = char_of (n + 32)"
    by (auto simp: lower_char_def Let_def n_def split: if_splits)
  from up have "(n + 32) mod 256 = n + 32" by auto
  then have "(of_char d :: nat) = n + 32" by (simp add: d)
  with up assms(2,3) show False by auto
qed

lemma lower_char_marks [simp]:
  "lower_char c = CHR ''#'' \<longleftrightarrow> c = CHR ''#''"
  "lower_char c = CHR '' '' \<longleftrightarrow> c = CHR '' ''"
  "lower_char c = CHR ''-'' \<longleftrightarrow> c = CHR ''-''"
  "lower_char c = CHR ''>'' \<longleftrightarrow> c = CHR ''>''"
  using lower_char_nonletter [of c "CHR ''#''"] lower_char_nonletter [of c "CHR '' ''"]
    lower_char_nonletter [of c "CHR ''-''"] lower_char_nonletter [of c "CHR ''>''"]
  by (auto simp: lower_char_def)

lemma scan_end:
  "scan (\<lambda>s. if s = [] then Some [] else None) acc s
     = (if s = [] then None else Some (rev acc @ s, []))"
  by (induction s arbitrary: acc) auto

lemma lower_eq_Cons: "lower s = d # ds \<longleftrightarrow> (\<exists>c cs. s = c # cs \<and> lower_char c = d \<and> lower cs = ds)"
  by (cases s) (auto simp: lower_def)

lemma lower_eq_Nil [simp]: "lower s = [] \<longleftrightarrow> s = []"
  by (simp add: lower_def)

lemma lower_hash_space: "lower s = ''# '' \<longleftrightarrow> s = ''# ''"
  by (auto simp: lower_eq_Cons)

lemma lower_arrow_space: "lower s = ''-> '' \<longleftrightarrow> s = ''-> ''"
  by (auto simp: lower_eq_Cons)

lemma lower_literals [simp]:
  "lower ''# '' = ''# ''" "lower ''-> '' = ''-> ''"
  by (simp_all add: lower_def lower_char_def)

lemma parse_Comment_format:
  "parse Comment_format l =
     (if startswith l ''# '' \<and> 2 < length l then Some [(''comment'', drop 2 l)] else None)"
  by (simp add: Comment_format_def scan_end startswith_def lower_hash_space numeral_2_eq_2)

lemma parse_Dependency_format:
  "parse Dependency_format l =
     (if startswith l ''-> '' \<and> 3 < length l then Some [(''dependency'', drop 3 l)] else None)"
  by (simp add: Dependency_format_def scan_end startswith_def lower_arrow_space numeral_3_eq_3)

lemma Comment_from_string_value:
  "Comment_from_string l = Inr c \<Longrightarrow> c = Comment (drop 2 l)"
  by (auto simp: Comment_from_string_def parse_Comment_format
           split: option.splits if_splits)

lemma Dependency_from_string_fails:
  "\<not> startswith l ''-> '' \<Longrightarrow>
     Dependency_from_string l = Inl (format_raise Dependency_format l)"
  by (simp add: Dependency_from_string_def parse_Dependency_format)

section \<open>Index lines\<close>

lemma contains_set: "contains sub s \<Longrightarrow> set sub \<subseteq> set s"
proof (induction s)
  case Nil
  then show ?case by simp
next
  case (Cons c cs)
  show ?case
  proof (cases "startswith (c # cs) sub")
    case True
    then have "sub = take (length sub) (c # cs)" by (simp add: startswith_def)
    then have "set sub \<subseteq> set (c # cs)" by (metis set_take_subset)
    then show ?thesis .
  next
    case False
    with Cons show ?thesis by auto
  qed
qed

lemma no_dash_no_marker:
  assumes "CHR ''-'' \<notin> set s"
  shows "\<not> contains ''---'' s" and "\<not> contains ''->'' s"
  using assms contains_set [of "''---''" s] contains_set [of "''->''" s] by auto

lemma lower_index [simp]: "lower ''index'' = ''index''" "lower ''unique'' = ''unique''"
  by (simp_all add: lower_def lower_char_def)

lemma index_re_match_plain:
  "CHR '':'' \<notin> set inner \<Longrightarrow> index_re_match (''index ('' @ inner @ '')'')"
  by (simp add: index_re_match_def)

lemma index_re_match_unique:
  "CHR '':'' \<notin> set inner \<Longrightarrow> index_re_match (''unique index ('' @ inner @ '')'')"
  by (simp add: index_re_match_def isspace_def)

lemma index_re_match_first:
  assumes "index_re_match s"
  shows "s \<noteq> []" and "\<not> startswith s ''#''"
proof -
  from assms have "lower (take 5 s) = ''index'' \<or> lower (take 6 s) = ''unique''"
    by (auto simp: index_re_match_def Let_def)
  then show "s \<noteq> []" by (auto simp: lower_def)
  show "\<not> startswith s ''#''"
  proof
    assume "startswith s ''#''"
    then obtain cs where "s = CHR ''#'' # cs"
      by (cases s) (auto simp: startswith_def)
    with \<open>lower (take 5 s) = ''index'' \<or> lower (take 6 s) = ''unique''\<close>
    show False by (auto simp: lower_def lower_char_def)
  qed
qed

lemma index_row_error:
  assumes m: "index_re_match (strip l)"
    and nd: "\<not> contains ''---'' (strip l)" "\<not> contains ''->'' (strip l)"
  shows "Attribute_from_string ap co (strip l) = Inl NotImplementedError"
    and "row_error ap co l = Some NotImplementedError"
proof -
  from m show a: "Attribute_from_string ap co (strip l) = Inl NotImplementedError"
    by (simp add: Attribute_from_string_def)
  from index_re_match_first [OF m] nd have "line_kind l = RowLine"
    by (simp add: line_kind_def)
  with nd a show "row_error ap co l = Some NotImplementedError"
    by (simp add: row_error_def)
qed

lemma index_forms_covered:
  assumes "s = ''index ('' @ inner @ '')'' \<or> s = ''unique index ('' @ inner @ '')''"
    and "CHR '':'' \<notin> set inner" and "CHR ''-'' \<notin> set inner"
  shows "index_re_match s \<and> \<not> contains ''---'' s \<and> \<not> contains ''->'' s"
proof -
  from assms(1,2) have "index_re_match s"
    using index_re_match_plain index_re_match_unique by auto
  moreover from assms(1,3) have "CHR ''-'' \<notin> set s" by auto
  ultimately show ?thesis using no_dash_no_marker by blast
qed

lemma index_variants_covered:
  "index_re_match ''INDEX (a, b)''" "index_re_match ''index(a, b)''"
  "index_re_match ''Unique   Index(a)''"
  by code_simp+

section \<open>What the loop leaves in the comment and the keys\<close>

lemma loop_body_comment:
  assumes "loop_body ap co st l = Inr st'"
  shows "cur_comment st' =
           (if startswith (strip l) ''#'' then Some (Comment (drop 2 (strip l)))
            else cur_comment st)"
  using assms
  by (auto simp: loop_body_def Let_def startswith_def
           dest: Comment_from_string_value split: if_splits sum.splits)

lemma loop_comment:
  "loop ap co st ls = Inr st' \<Longrightarrow>
     cur_comment st' =
       (case filter (\<lambda>x. startswith x ''#'') (map strip ls) of
          [] \<Rightarrow> cur_comment st
        | c # cs \<Rightarrow> Some (Comment (drop 2 (last (c # cs)))))"
proof (induction ls arbitrary: st)
  case Nil
  then show ?case by simp
next
  case (Cons l ls)
  then obtain st1 where b: "loop_body ap co st l = Inr st1"
    and r: "loop ap co st1 ls = Inr st'"
    by (auto split: sum.splits)
  note ih = Cons.IH [OF r]
  note c = loop_body_comment [OF b]
  show ?case
  proof (cases "startswith (strip l) ''#''")
    case True
    with ih c show ?thesis by (auto split: list.splits)
  next
    case False
    with ih c show ?thesis by (simp split: list.splits)
  qed
qed

lemma loop_body_keys:
  assumes "loop_body ap co st l = Inr st'"
  shows "passed_keys st' = (passed_keys st \<or> line_kind l = Divider)"
    and "passed_keys st \<or> line_kind l \<noteq> RowLine \<Longrightarrow> cur_keys st' = cur_keys st"
  using assms
  by (auto simp: loop_body_def line_kind_def Let_def split: if_splits sum.splits)

lemma loop_keys_after_divider:
  "passed_keys st \<Longrightarrow> loop ap co st ls = Inr st' \<Longrightarrow> cur_keys st' = cur_keys st"
proof (induction ls arbitrary: st)
  case Nil
  then show ?case by simp
next
  case (Cons l ls)
  then obtain st1 where b: "loop_body ap co st l = Inr st1"
    and r: "loop ap co st1 ls = Inr st'"
    by (auto split: sum.splits)
  from loop_body_keys [OF b] Cons.prems(1)
  have "passed_keys st1" "cur_keys st1 = cur_keys st" by auto
  with Cons.IH [OF _ r] show ?case by simp
qed

lemma loop_keys_no_key_line:
  assumes "\<forall>x\<in>set (takeWhile (\<lambda>x. line_kind x \<noteq> Divider) ls). line_kind x \<noteq> RowLine"
    and "loop ap co st ls = Inr st'"
  shows "cur_keys st' = cur_keys st"
  using assms
proof (induction ls arbitrary: st)
  case Nil
  then show ?case by simp
next
  case (Cons l ls)
  then obtain st1 where b: "loop_body ap co st l = Inr st1"
    and r: "loop ap co st1 ls = Inr st'"
    by (auto split: sum.splits)
  show ?case
  proof (cases "line_kind l = Divider")
    case True
    with loop_body_keys [OF b] have "passed_keys st1" "cur_keys st1 = cur_keys st" by auto
    with loop_keys_after_divider [OF _ r] show ?thesis by simp
  next
    case False
    with Cons.prems(1) have nr: "line_kind l \<noteq> RowLine"
      and rest: "\<forall>x\<in>set (takeWhile (\<lambda>x. line_kind x \<noteq> Divider) ls). line_kind x \<noteq> RowLine"
      by auto
    from loop_body_keys(2) [OF b] nr have "cur_keys st1 = cur_keys st" by simp
    with Cons.IH [OF rest r] show ?thesis by simp
  qed
qed

section \<open>Data type tokens and the tier default\<close>

lemma no_tier_never_returns:
  "from_definition ap coerce name definition None \<noteq> Inr t"
  by (auto simp: from_definition_def Table_init_def TIERS_def split: sum.splits)

lemma at_branch_raises:
  assumes "contains ''@'' s"
  shows "\<exists>e. (case split ''@'' s of
                 Inl e \<Rightarrow> Inl e
               | Inr parts \<Rightarrow>
                   (case parts of
                      [dt, args] \<Rightarrow> DJ_Type_init coerce dt (Some (RawStr args)) False
                    | _ \<Rightarrow> Inl ValueError)) = Inl e"
proof (cases s)
  case Nil
  with assms show ?thesis by simp
next
  case (Cons c cs)
  show ?thesis
  proof (cases "s = ''@''")
    case True
    then show ?thesis
      by (simp add: split_def startswith_def DJ_Type_init_def DATATYPES_def)
  next
    case False
    with Cons have "\<not> startswith ''@'' s" by (auto simp: startswith_def)
    with Cons show ?thesis by (simp add: split_def)
  qed
qed

lemma contains_char: "contains [c] s \<longleftrightarrow> c \<in> set s"
  by (induction s) (auto simp: startswith_def)

lemma dropWhile_keeps: "x \<in> set xs \<Longrightarrow> \<not> P x \<Longrightarrow> x \<in> set (dropWhile P xs)"
  by (induction xs) auto

lemma rstrip_chars_keeps:
  "x \<in> set s \<Longrightarrow> x \<notin> set chars \<Longrightarrow> x \<in> set (rstrip_chars s chars)"
  by (simp add: rstrip_chars_def dropWhile_keeps)

lemma at_token_always_raises:
  assumes "contains ''@'' input"
  shows "\<exists>e. DJ_Type_from_string coerce input = Inl e"
proof -
  define s where "s = (if contains ''unsigned'' input then rstrip_chars input '' unsigned''
                       else input)"
  from assms have "CHR ''@'' \<in> set input" by (simp add: contains_char)
  then have "CHR ''@'' \<in> set s"
    by (simp add: s_def rstrip_chars_keeps)
  then have c: "contains ''@'' s" by (simp add: contains_char)
  from at_branch_raises [OF c, of coerce] c show ?thesis
    by (simp add: DJ_Type_from_string_def Let_def s_def)
qed

lemma DJ_Type_init_unsigned:
  "DJ_Type_init coerce dt raw u = Inr d \<Longrightarrow> dj_unsigned d = u"
  by (auto simp: DJ_Type_init_def split: if_splits option.splits)

lemma unsigned_flag_is_substring_test:
  assumes "DJ_Type_from_string coerce input = Inr d"
  shows "dj_unsigned d = contains ''unsigned'' input"
proof -
  define s where "s = (if contains ''unsigned'' input then rstrip_chars input '' unsigned''
                       else input)"
  show ?thesis
  proof (cases "contains ''@'' s")
    case True
    from at_branch_raises [OF True, of coerce] assms True show ?thesis
      by (auto simp: DJ_Type_from_string_def Let_def s_def)
  next
    case False
    with assms show ?thesis
      by (auto simp: DJ_Type_from_string_def Let_def s_def
               dest: DJ_Type_init_unsigned split: option.splits if_splits)
  qed
qed

lemma make_drops_zero_parameter:
  "DJ_Type_make \<lparr>dj_datatype = ''char'', dj_args = Some (ArgInt 0), dj_unsigned = False\<rparr>
     = ''char''"
  by code_simp


section \<open>Claims\<close>

text \<open>
  C6. Fail-fast propagation: when some line of the definition body fails in its row
  parser, and no earlier line does, \<open>Table.from_definition\<close> raises exactly that
  row's error, whatever the name and the tier argument; no \<open>Table\<close> is returned, so
  an earlier valid key line is never seen in a result.
\<close>

theorem fail_fast_propagation:
  assumes "splitlines_nl definition = pre @ l # post"
    and "\<forall>x\<in>set pre. row_error ap coerce x = None"
    and "row_error ap coerce l = Some e"
  shows "from_definition ap coerce name definition tier = Inl e"
  using loop_first_failure [OF assms(2,3)] assms(1)
  by (simp add: from_definition_def)

theorem fail_fast_propagation_witness:
  "splitlines_nl ''-> Session\<newline>->Subject'' = [''-> Session''] @ ''->Subject'' # []
   \<and> row_error (\<lambda>s. None) (\<lambda>r. None) ''-> Session'' = None
   \<and> row_error (\<lambda>s. None) (\<lambda>r. None) ''->Subject''
       = Some (format_raise Dependency_format ''->Subject'')
   \<and> from_definition (\<lambda>s. None) (\<lambda>r. None) ''Foo'' ''-> Session\<newline>->Subject'' None
       = Inl (format_raise Dependency_format ''->Subject'')"
proof -
  have h1: "splitlines_nl ''-> Session\<newline>->Subject'' = [''-> Session''] @ ''->Subject'' # []"
    by code_simp
  have h2: "\<forall>x\<in>set [''-> Session'']. row_error (\<lambda>s. None) (\<lambda>r. None) x = None"
    by code_simp
  have h3: "row_error (\<lambda>s. None) (\<lambda>r. None) ''->Subject''
       = Some (format_raise Dependency_format ''->Subject'')"
    by code_simp
  show ?thesis
    using h1 h2 h3 fail_fast_propagation [OF h1 h2 h3] by simp
qed


text \<open>
  C1. Tier default. A call of \<open>Table.from_definition\<close> without a tier argument
  should give a table of tier \<open>Manual\<close>, the default of the field. The code puts
  \<open>'MANUAL'\<close> in its place, which is not a member of \<open>TIERS\<close>, so the constructor
  rejects the table: on the one-line body \<open>-> Session\<close> the call ends in the
  validation error, while the same call with the tier \<open>Manual\<close> written out returns
  the table.
\<close>

theorem tier_default_is_rejected:
  "from_definition ap coerce ''Foo'' ''-> Session'' None = Inl ValidationError
   \<and> from_definition ap coerce ''Foo'' ''-> Session'' (Some ''Manual'')
       = Inr \<lparr>tbl_name = ''Foo'', tbl_tier = ''Manual'', tbl_comment = None,
              tbl_keys = [DependencyRow (Dependency ''Session'')],
              tbl_attributes = Some []\<rparr>"
  by code_simp

text \<open>
  C2. Filepath form. A token \<open>name@store\<close> should parse to the kind \<open>filepath\<close>
  with the store name as its parameter. The code splits the string \<open>'@'\<close> by the
  token instead of the token by \<open>'@'\<close>; the result has one item, the unpacking into
  two names fails, and \<open>DJ_Type.from_string\<close> raises \<open>ValueError\<close> on
  \<open>filepath@store\<close>.
\<close>

theorem filepath_token_raises:
  "DJ_Type_from_string coerce ''filepath@store'' = Inl ValueError"
  by code_simp

text \<open>
  C3. Round trip for types. Parsing a token, rendering the result and parsing again
  should give the first result back. For the filepath form there is no first result:
  no data type \<open>d\<close> is both the parse of \<open>filepath@store\<close> and the parse of its own
  rendering.
\<close>

theorem roundtrip_fails_on_filepath:
  "\<nexists>d. DJ_Type_from_string coerce ''filepath@store'' = Inr d
        \<and> DJ_Type_from_string coerce (DJ_Type_make d) = Inr d"
proof -
  have "DJ_Type_from_string coerce ''filepath@store'' = Inl ValueError"
    by code_simp
  then show ?thesis by simp
qed

text \<open>
  C4. Unsigned suffix. Only the suffix \<open>' unsigned'\<close> should be removed from the
  token. The code calls \<open>rstrip(' unsigned')\<close>, which removes every trailing
  character that occurs in that text: \<open>double unsigned\<close> loses the final \<open>e\<close> of
  \<open>double\<close> as well, and the remaining \<open>doubl\<close> is rejected as a data type.
\<close>

theorem unsigned_strips_more_than_suffix:
  "rstrip_chars ''double unsigned'' '' unsigned'' = ''doubl''
   \<and> DJ_Type_from_string coerce ''double unsigned'' = Inl ValidationError"
  by code_simp

text \<open>
  C5. Unknown dialect. As stated (an unknown dialect fails with an error) the claim
  does not hold: \<open>Table.make\<close> has no branch for it and returns \<open>None\<close>, as on the
  dialect \<open>rust\<close> below. Amended: for every table and every dialect string that is
  not \<open>python\<close> and whose lower-case form is not \<open>matlab\<close>, \<open>Table.make\<close> returns
  \<open>None\<close>; it raises nothing and renders no dialect.
\<close>

theorem unknown_dialect_counterexample:
  "Table_make \<lparr>tbl_name = ''Foo'', tbl_tier = ''Manual'', tbl_comment = None,
               tbl_keys = [DependencyRow (Dependency ''Session'')],
               tbl_attributes = Some []\<rparr> ''rust'' = Inr None"
  by code_simp

theorem unknown_dialect_returns_None:
  "lang \<noteq> ''python'' \<Longrightarrow> lower lang \<noteq> ''matlab'' \<Longrightarrow> Table_make t lang = Inr None"
  by (simp add: Table_make_def)

theorem unknown_dialect_returns_None_witness:
  "''julia'' \<noteq> ''python'' \<and> lower ''julia'' \<noteq> ''matlab''
   \<and> Table_make \<lparr>tbl_name = ''Bar'', tbl_tier = ''Lookup'', tbl_comment = Some (Comment ''c''),
               tbl_keys = [], tbl_attributes = None\<rparr> ''julia'' = Inr None"
proof -
  have h1: "''julia'' \<noteq> ''python''" by simp
  have h2: "lower ''julia'' \<noteq> ''matlab''" by code_simp
  show ?thesis using h1 h2 unknown_dialect_returns_None [OF h1 h2] by simp
qed


text \<open>
  C7. Index lines. As stated (every line of the form \<open>index (...)\<close> or
  \<open>unique index (...)\<close> fails as an unsupported construct and is never dropped) the
  claim does not hold: the test for the divider comes first, so the key line
  \<open>unique index (a---b)\<close> is taken for a divider and the table is returned.
  Amended: for every line that after trimming matches the index pattern of
  \<open>Attribute.from_string\<close> (an optional \<open>unique\<close> and white space, then \<open>index\<close>,
  in any letter case, then no \<open>:\<close>; the two forms of the claim are among them) and
  that contains neither \<open>---\<close> nor \<open>->\<close>, \<open>Attribute.from_string\<close> raises
  \<open>NotImplementedError\<close>, and in either section of the body, when no earlier line
  fails, \<open>Table.from_definition\<close> ends in that error: the line is neither dropped nor
  read as an attribute.
\<close>

theorem index_line_counterexample:
  "from_definition (\<lambda>s. None) (\<lambda>r. None) ''Foo''
     ''-> Session\<newline>unique index (a---b)'' (Some ''Manual'')
   = Inr \<lparr>tbl_name = ''Foo'', tbl_tier = ''Manual'', tbl_comment = None,
          tbl_keys = [DependencyRow (Dependency ''Session'')],
          tbl_attributes = Some []\<rparr>"
  by code_simp

theorem index_line_unsupported:
  assumes "splitlines_nl definition = pre @ l # post"
    and "\<forall>x\<in>set pre. row_error ap coerce x = None"
    and "index_re_match (strip l)"
    and "\<not> contains ''---'' (strip l)" and "\<not> contains ''->'' (strip l)"
  shows "Attribute_from_string ap coerce (strip l) = Inl NotImplementedError
         \<and> from_definition ap coerce name definition tier = Inl NotImplementedError"
proof -
  have "loop ap coerce initial_state (pre @ l # post) = Inl NotImplementedError"
    using assms(2) index_row_error(2) [OF assms(3,4,5)] by (rule loop_first_failure)
  then show ?thesis
    using assms(1) index_row_error(1) [OF assms(3,4,5)]
    by (simp add: from_definition_def)
qed

theorem index_line_unsupported_witness:
  "splitlines_nl ''-> Session\<newline>---\<newline>  unique index (a, b)''
     = [''-> Session'', ''---''] @ ''  unique index (a, b)'' # []
   \<and> row_error (\<lambda>s. None) (\<lambda>r. None) ''-> Session'' = None
   \<and> row_error (\<lambda>s. None) (\<lambda>r. None) ''---'' = None
   \<and> index_re_match (strip ''  unique index (a, b)'')
   \<and> \<not> contains ''---'' (strip ''  unique index (a, b)'')
   \<and> \<not> contains ''->'' (strip ''  unique index (a, b)'')
   \<and> Attribute_from_string (\<lambda>s. None) (\<lambda>r. None) (strip ''  unique index (a, b)'')
       = Inl NotImplementedError
   \<and> from_definition (\<lambda>s. None) (\<lambda>r. None) ''Foo''
        ''-> Session\<newline>---\<newline>  unique index (a, b)'' (Some ''Manual'')
       = Inl NotImplementedError"
proof -
  have h1: "splitlines_nl ''-> Session\<newline>---\<newline>  unique index (a, b)''
     = [''-> Session'', ''---''] @ ''  unique index (a, b)'' # []"
    by code_simp
  have r: "row_error (\<lambda>s. None) (\<lambda>r. None) ''-> Session'' = None"
    "row_error (\<lambda>s. None) (\<lambda>r. None) ''---'' = None"
    by code_simp+
  then have h2: "\<forall>x\<in>set [''-> Session'', ''---'']. row_error (\<lambda>s. None) (\<lambda>r. None) x = None"
    by simp
  have h3: "index_re_match (strip ''  unique index (a, b)'')" by code_simp
  have h4: "\<not> contains ''---'' (strip ''  unique index (a, b)'')" by code_simp
  have h5: "\<not> contains ''->'' (strip ''  unique index (a, b)'')" by code_simp
  show ?thesis
    using h1 r h3 h4 h5
      index_line_unsupported [OF h1 h2 h3 h4 h5, of "''Foo''" "Some ''Manual''"]
    by simp
qed

text \<open>
  C8. Empty key section. As stated (a body with no key line before the divider is
  rejected) the claim does not hold: the body \<open>---\<close>, \<open>-> Session\<close> with the tier
  \<open>Manual\<close> gives a table whose keys are empty. Amended: when every line of the
  body parses, no row line stands before the first divider line, and the tier given is
  one of \<open>TIERS\<close>, \<open>Table.from_definition\<close> returns a table whose keys are the empty
  list.
\<close>

theorem empty_keys_counterexample:
  "from_definition (\<lambda>s. None) (\<lambda>r. None) ''Foo'' ''---\<newline>-> Session'' (Some ''Manual'')
   = Inr \<lparr>tbl_name = ''Foo'', tbl_tier = ''Manual'', tbl_comment = None,
          tbl_keys = [],
          tbl_attributes = Some [DependencyRow (Dependency ''Session'')]\<rparr>"
  by code_simp

theorem empty_keys_accepted:
  assumes "\<forall>x\<in>set (splitlines_nl definition). row_error ap coerce x = None"
    and "\<forall>x\<in>set (takeWhile (\<lambda>x. line_kind x \<noteq> Divider) (splitlines_nl definition)).
           line_kind x \<noteq> RowLine"
    and "tier \<in> set TIERS"
  shows "\<exists>t. from_definition ap coerce name definition (Some tier) = Inr t \<and> tbl_keys t = []"
proof -
  obtain st where l: "loop ap coerce initial_state (splitlines_nl definition) = Inr st"
    using loop_returns [OF assms(1)] by blast
  from loop_keys_no_key_line [OF assms(2) l] have "cur_keys st = []"
    by (simp add: initial_state_def)
  with l assms(3) show ?thesis
    by (simp add: from_definition_def Table_init_def)
qed

theorem empty_keys_accepted_witness:
  "row_error (\<lambda>s. None) (\<lambda>r. None) ''# users'' = None
   \<and> row_error (\<lambda>s. None) (\<lambda>r. None) '' --- '' = None
   \<and> row_error (\<lambda>s. None) (\<lambda>r. None) ''-> Subject'' = None
   \<and> line_kind ''# users'' = CommentLine \<and> line_kind '' --- '' = Divider
   \<and> ''Computed'' \<in> set TIERS
   \<and> (\<exists>t. from_definition (\<lambda>s. None) (\<lambda>r. None) ''Foo''
             ''# users\<newline> --- \<newline>-> Subject'' (Some ''Computed'') = Inr t
          \<and> tbl_keys t = [])"
proof -
  have s: "splitlines_nl ''# users\<newline> --- \<newline>-> Subject'' = [''# users'', '' --- '', ''-> Subject'']"
    by code_simp
  have r: "row_error (\<lambda>s. None) (\<lambda>r. None) ''# users'' = None"
    "row_error (\<lambda>s. None) (\<lambda>r. None) '' --- '' = None"
    "row_error (\<lambda>s. None) (\<lambda>r. None) ''-> Subject'' = None"
    by code_simp+
  have k: "line_kind ''# users'' = CommentLine" "line_kind '' --- '' = Divider"
    by code_simp+
  have h1: "\<forall>x\<in>set (splitlines_nl ''# users\<newline> --- \<newline>-> Subject'').
              row_error (\<lambda>s. None) (\<lambda>r. None) x = None"
    using r by (simp add: s)
  have h2: "\<forall>x\<in>set (takeWhile (\<lambda>x. line_kind x \<noteq> Divider)
                     (splitlines_nl ''# users\<newline> --- \<newline>-> Subject'')).
              line_kind x \<noteq> RowLine"
    using k by (simp add: s)
  have h3: "''Computed'' \<in> set TIERS" by code_simp
  show ?thesis
    using r k h3 empty_keys_accepted [OF h1 h2 h3, of "''Foo''"] by simp
qed

text \<open>
  C9. Leading comment. As stated (only the first \<open>#\<close> line is captured and a later
  one never replaces it) the claim does not hold: in the body \<open># first\<close>,
  \<open>-> Session\<close>, \<open># second\<close> the table's comment is \<open>second\<close>. Amended: every
  line that starts with \<open>#\<close> after trimming, wherever it stands in the body, is parsed
  as a comment and replaces the one held so far; a returned table has the comment of
  the last such line (its text after the first two characters), and none when the body
  has no such line.
\<close>

theorem first_comment_counterexample:
  "from_definition (\<lambda>s. None) (\<lambda>r. None) ''Foo''
     ''# first\<newline>-> Session\<newline># second'' (Some ''Manual'')
   = Inr \<lparr>tbl_name = ''Foo'', tbl_tier = ''Manual'', tbl_comment = Some (Comment ''second''),
          tbl_keys = [DependencyRow (Dependency ''Session'')],
          tbl_attributes = Some []\<rparr>"
  by code_simp

theorem last_comment_line_wins:
  assumes "from_definition ap coerce name definition tier = Inr t"
  shows "tbl_comment t =
           (case filter (\<lambda>x. startswith x ''#'') (map strip (splitlines_nl definition)) of
              [] \<Rightarrow> None
            | c # cs \<Rightarrow> Some (Comment (drop 2 (last (c # cs)))))"
proof -
  from assms obtain st where l: "loop ap coerce initial_state (splitlines_nl definition) = Inr st"
    and t: "Table_init name (case tier of None \<Rightarrow> ''MANUAL'' | Some x \<Rightarrow> x)
              (cur_comment st) (cur_keys st) (Some (cur_attrs st)) = Inr t"
    by (auto simp: from_definition_def Let_def split: sum.splits)
  from t have "tbl_comment t = cur_comment st"
    by (auto simp: Table_init_def split: if_splits)
  with loop_comment [OF l] show ?thesis
    by (simp add: initial_state_def split: list.splits)
qed

theorem last_comment_line_wins_witness:
  "from_definition (\<lambda>s. None) (\<lambda>r. None) ''Foo''
     ''# one\<newline>-> Session\<newline>---\<newline># two\<newline>-> Subject'' (Some ''Lookup'')
   = Inr \<lparr>tbl_name = ''Foo'', tbl_tier = ''Lookup'', tbl_comment = Some (Comment ''two''),
          tbl_keys = [DependencyRow (Dependency ''Session'')],
          tbl_attributes = Some [DependencyRow (Dependency ''Subject'')]\<rparr>
   \<and> tbl_comment \<lparr>tbl_name = ''Foo'', tbl_tier = ''Lookup'', tbl_comment = Some (Comment ''two''),
          tbl_keys = [DependencyRow (Dependency ''Session'')],
          tbl_attributes = Some [DependencyRow (Dependency ''Subject'')]\<rparr>
     = (case filter (\<lambda>x. startswith x ''#'')
              (map strip (splitlines_nl ''# one\<newline>-> Session\<newline>---\<newline># two\<newline>-> Subject'')) of
          [] \<Rightarrow> None
        | c # cs \<Rightarrow> Some (Comment (drop 2 (last (c # cs)))))"
proof -
  have h: "from_definition (\<lambda>s. None) (\<lambda>r. None) ''Foo''
     ''# one\<newline>-> Session\<newline>---\<newline># two\<newline>-> Subject'' (Some ''Lookup'')
   = Inr \<lparr>tbl_name = ''Foo'', tbl_tier = ''Lookup'', tbl_comment = Some (Comment ''two''),
          tbl_keys = [DependencyRow (Dependency ''Session'')],
          tbl_attributes = Some [DependencyRow (Dependency ''Subject'')]\<rparr>"
    by code_simp
  show ?thesis using h last_comment_line_wins [OF h] by simp
qed

text \<open>
  C10. Arrow anywhere in a line. As stated (every non-blank line that does not start
  with \<open>#\<close> and contains \<open>->\<close> goes to the dependency parser) the claim does not
  hold: the test for the divider \<open>---\<close> comes first, so the attribute line
  \<open>a : int # x ---> y\<close> is taken for a divider and the table is returned. Amended:
  a non-blank line that does not start with \<open>#\<close>, contains no \<open>---\<close> anywhere in
  the line and contains \<open>->\<close> goes to the dependency parser; when such a line does
  not start with \<open>'-> '\<close> (as no attribute line does) and no earlier line fails,
  \<open>Table.from_definition\<close> ends in the \<open>ParseError\<close> of the dependency format for
  that line.
\<close>

theorem arrow_line_counterexample:
  "from_definition (\<lambda>s. None) (\<lambda>r. None) ''Foo''
     ''-> Session\<newline>a : int # x ---> y'' (Some ''Manual'')
   = Inr \<lparr>tbl_name = ''Foo'', tbl_tier = ''Manual'', tbl_comment = None,
          tbl_keys = [DependencyRow (Dependency ''Session'')],
          tbl_attributes = Some []\<rparr>"
  by code_simp

theorem arrow_line_goes_to_dependency_parser:
  assumes "splitlines_nl definition = pre @ l # post"
    and "\<forall>x\<in>set pre. row_error ap coerce x = None"
    and "strip l \<noteq> []" and "\<not> startswith (strip l) ''#''"
    and "\<not> contains ''---'' (strip l)"
    and "contains ''->'' (strip l)"
    and "\<not> startswith (strip l) ''-> ''"
  shows "from_definition ap coerce name definition tier
           = Inl (format_raise Dependency_format (strip l))"
proof -
  from assms(3,4,5) have "line_kind l = RowLine" by (simp add: line_kind_def)
  with assms(6) Dependency_from_string_fails [OF assms(7)]
  have "row_error ap coerce l = Some (format_raise Dependency_format (strip l))"
    by (simp add: row_error_def)
  with assms(2)
  have "loop ap coerce initial_state (pre @ l # post)
          = Inl (format_raise Dependency_format (strip l))"
    by (rule loop_first_failure)
  then show ?thesis using assms(1) by (simp add: from_definition_def)
qed

theorem arrow_line_goes_to_dependency_parser_witness:
  "splitlines_nl ''-> Session\<newline>a : int # x -> y'' = [''-> Session''] @ ''a : int # x -> y'' # []
   \<and> row_error (\<lambda>s. None) (\<lambda>r. None) ''-> Session'' = None
   \<and> strip ''a : int # x -> y'' \<noteq> []
   \<and> \<not> startswith (strip ''a : int # x -> y'') ''#''
   \<and> \<not> contains ''---'' (strip ''a : int # x -> y'')
   \<and> contains ''->'' (strip ''a : int # x -> y'')
   \<and> \<not> startswith (strip ''a : int # x -> y'') ''-> ''
   \<and> from_definition (\<lambda>s. None) (\<lambda>r. None) ''Foo'' ''-> Session\<newline>a : int # x -> y''
        (Some ''Manual'')
       = Inl (format_raise Dependency_format ''a : int # x -> y'')"
proof -
  have h1: "splitlines_nl ''-> Session\<newline>a : int # x -> y''
              = [''-> Session''] @ ''a : int # x -> y'' # []"
    by code_simp
  have h2: "\<forall>x\<in>set [''-> Session'']. row_error (\<lambda>s. None) (\<lambda>r. None) x = None"
    by code_simp
  have s: "strip ''a : int # x -> y'' = ''a : int # x -> y''" by code_simp
  have h3: "strip ''a : int # x -> y'' \<noteq> []" by code_simp
  have h4: "\<not> startswith (strip ''a : int # x -> y'') ''#''" by code_simp
  have h5: "\<not> contains ''---'' (strip ''a : int # x -> y'')" by code_simp
  have h6: "contains ''->'' (strip ''a : int # x -> y'')" by code_simp
  have h7: "\<not> startswith (strip ''a : int # x -> y'') ''-> ''" by code_simp
  show ?thesis
    using h1 h2 h3 h4 h5 h6 h7 s
      arrow_line_goes_to_dependency_parser [OF h1 h2 h3 h4 h5 h6 h7, of "''Foo''" "Some ''Manual''"]
    by simp
qed

end
